theory Spec2Isabelle
  imports Main "HOL-Library.Monad_Syntax"
begin

section \<open>The object store of src/component/fibers.ts\<close>

text \<open>
  Fibers and component nodes are JavaScript objects that refer to each other
  (\<open>fiber.node\<close>, \<open>node.fiber\<close>, \<open>fiber.root\<close>, \<open>fiber.parent\<close>,
  \<open>fiber.children\<close>), so the model keeps them in an explicit store: an object is an
  address, a reference is the address it points to, and object identity is equality of
  addresses. Every reference of the source points to an existing object, so the store is
  a total function. BDom values, callbacks, component instances, DOM elements and
  exceptions are opaque and stand as numbers.
\<close>

type_synonym fid = nat
type_synonym nid = nat
type_synonym bdom = nat
type_synonym callback = nat
type_synonym component = nat
type_synonym element = nat

datatype Position = first_child | last_child

text \<open>
  Modelled from the spec: the enumeration \<open>STATUS\<close> of \<open>./status\<close> is not among
  the sources; the code only ever writes \<open>STATUS.MOUNTED\<close>.
\<close>

datatype STATUS = NEW | MOUNTED | DESTROYED

datatype FiberClass = Fiber_class | RootFiber_class | MountFiber_class

text \<open>
  The classes \<open>Fiber\<close>, \<open>RootFiber extends Fiber\<close> and
  \<open>MountFiber extends RootFiber\<close> share one record; \<open>cls\<close> tells which constructor
  built the object. The fields from \<open>counter\<close> on exist in a \<open>RootFiber\<close> only, and
  \<open>target\<close> and \<open>position\<close> in a \<open>MountFiber\<close> only; the source types
  \<open>root\<close> as \<open>RootFiber\<close>, so they are read and written on such objects only.
\<close>

record Fiber =
  node :: nid
  bdom :: "bdom option"
  root :: fid
  parent :: "fid option"
  children :: "fid list"
  appliedToDom :: bool
  cls :: FiberClass
  counter :: int
  willPatch :: "fid list"
  patched :: "fid list"
  mounted :: "fid list"
  locked :: bool
  target :: element
  position :: Position

text \<open>
  Modelled from the spec: the class \<open>ComponentNode\<close> of \<open>./component_node\<close> is
  not among the sources. These are the members fibers.ts reads and writes (section 6 of
  the specification); of \<open>node.children\<close> only the keys matter.
\<close>

record ComponentNode =
  node_fiber :: "fid option"
  node_bdom :: "bdom option"
  node_component :: component
  node_children :: "string list"
  node_willPatch :: "callback list"
  node_patched :: "callback list"
  node_mounted :: "callback list"
  node_status :: STATUS

text \<open>
  \<open>fibersInError\<close> is the module-level set of \<open>./error_handling\<close>;
  \<open>childNodes\<close> gives the children of a DOM element; \<open>fresh\<close> is the address
  the next \<open>new\<close> returns.
\<close>

record store =
  fib :: "fid \<Rightarrow> Fiber"
  nod :: "nid \<Rightarrow> ComponentNode"
  fibersInError :: "fid set"
  childNodes :: "element \<Rightarrow> element list"
  fresh :: fid

definition upd_fiber :: "fid \<Rightarrow> (Fiber \<Rightarrow> Fiber) \<Rightarrow> store \<Rightarrow> store" where
  "upd_fiber f g s = s\<lparr>fib := (fib s)(f := g (fib s f))\<rparr>"

definition upd_node :: "nid \<Rightarrow> (ComponentNode \<Rightarrow> ComponentNode) \<Rightarrow> store \<Rightarrow> store" where
  "upd_node n g s = s\<lparr>nod := (nod s)(n := g (nod s n))\<rparr>"

section \<open>Cancellation\<close>

text \<open>
  \<open>cancelFibers(root, fibers)\<close>: the \<open>for\<close> loop is the recursion on the rest of
  the list, the recursive call on \<open>fiber.children\<close> reads the store. The recursion
  follows references of the store and need not end, so the function is partial:
  \<open>None\<close> is a call that does not return.
\<close>

partial_function (option) cancelFibers :: "fid \<Rightarrow> fid list \<Rightarrow> store \<Rightarrow> (int \<times> store) option" where
  "cancelFibers r fibers s =
     (case fibers of
        [] \<Rightarrow> Some (0, s)
      | fiber # rest \<Rightarrow>
          (let s1 = upd_node (node (fib s fiber)) (\<lambda>n. n\<lparr>node_fiber := None\<rparr>) s;
               s2 = upd_fiber fiber (\<lambda>f. f\<lparr>root := r\<rparr>) s1;
               result = (if bdom (fib s2 fiber) = None then 1 else 0)
           in do {
                (r1, s3) \<leftarrow> cancelFibers r (children (fib s2 fiber)) s2;
                (r2, s4) \<leftarrow> cancelFibers r rest s3;
                Some (result + r1 + r2, s4)
              }))"

section \<open>Constructors\<close>

text \<open>
  \<open>new Fiber(node, parent)\<close>: the field initialisers, then the constructor body.
  The object is allocated at \<open>fresh s\<close>.
\<close>

definition alloc :: "FiberClass \<Rightarrow> nid \<Rightarrow> fid option \<Rightarrow> store \<Rightarrow> store" where
  "alloc c n p s =
     s\<lparr>fib := (fib s)(fresh s :=
          \<lparr>node = n, bdom = None, root = fresh s, parent = p, children = [],
           appliedToDom = False, cls = c, counter = 0, willPatch = [], patched = [],
           mounted = [], locked = False, target = 0, position = last_child\<rparr>),
       fresh := Suc (fresh s)\<rparr>"

definition Fiber_constructor :: "FiberClass \<Rightarrow> nid \<Rightarrow> fid option \<Rightarrow> store \<Rightarrow> fid \<times> store" where
  "Fiber_constructor c n p s =
     (let this = fresh s;
          s1 = alloc c n p s
      in case p of
           Some par \<Rightarrow>
             (let r = root (fib s1 par);
                  s2 = upd_fiber r (\<lambda>f. f\<lparr>counter := counter f + 1\<rparr>) s1;
                  s3 = upd_fiber this (\<lambda>f. f\<lparr>root := r\<rparr>) s2;
                  s4 = upd_fiber par (\<lambda>f. f\<lparr>children := children f @ [this]\<rparr>) s3
              in (this, s4))
         | None \<Rightarrow> (this, upd_fiber this (\<lambda>f. f\<lparr>root := this\<rparr>) s1))"

definition Fiber_new :: "nid \<Rightarrow> fid option \<Rightarrow> store \<Rightarrow> fid \<times> store" where
  "Fiber_new n p s = Fiber_constructor Fiber_class n p s"

text \<open>
  \<open>new RootFiber(node, parent)\<close>: the inherited constructor, then the field
  initialisers of \<open>RootFiber\<close>.
\<close>

definition RootFiber_constructor :: "FiberClass \<Rightarrow> nid \<Rightarrow> fid option \<Rightarrow> store \<Rightarrow> fid \<times> store" where
  "RootFiber_constructor c n p s =
     (let (this, s1) = Fiber_constructor c n p s
      in (this, upd_fiber this
            (\<lambda>f. f\<lparr>counter := 1, willPatch := [], patched := [], mounted := [], locked := False\<rparr>) s1))"

definition RootFiber_new :: "nid \<Rightarrow> fid option \<Rightarrow> store \<Rightarrow> fid \<times> store" where
  "RootFiber_new n p s = RootFiber_constructor RootFiber_class n p s"



section \<open>Creating and recycling fibers\<close>

text \<open>
  \<open>cleanPatchableFiber(child, root)\<close>: \<open>indexOf\<close> finds the first occurrence and
  \<open>splice(i, 1)\<close> removes it.
\<close>

definition cleanPatchableFiber :: "fid \<Rightarrow> fid \<Rightarrow> store \<Rightarrow> store" where
  "cleanPatchableFiber child r s =
     (let s1 = upd_fiber r (\<lambda>f. f\<lparr>willPatch := remove1 child (willPatch f)\<rparr>) s
      in upd_fiber r (\<lambda>f. f\<lparr>patched := remove1 child (patched f)\<rparr>) s1)"

definition makeChildFiber :: "nid \<Rightarrow> fid \<Rightarrow> store \<Rightarrow> (fid \<times> store) option" where
  "makeChildFiber n p s =
     (case node_fiber (nod s n) of
        Some current \<Rightarrow>
          (let r = root (fib s p);
               isSameRoot = (root (fib s current) = r)
           in do {
                (_, s1) \<leftarrow> cancelFibers r (children (fib s current)) s;
                let s2 = upd_fiber current (\<lambda>f. f\<lparr>children := []\<rparr>) s1;
                    s3 = upd_fiber current (\<lambda>f. f\<lparr>parent := Some p\<rparr>) s2;
                    s4 = (if \<not> isSameRoot \<or> bdom (fib s3 current) \<noteq> None
                          then upd_fiber r (\<lambda>f. f\<lparr>counter := counter f + 1\<rparr>) s3 else s3);
                    s5 = (if isSameRoot then cleanPatchableFiber current r s4 else s4);
                    s6 = upd_fiber current (\<lambda>f. f\<lparr>bdom := None\<rparr>) s5;
                    s7 = upd_fiber current (\<lambda>f. f\<lparr>root := r\<rparr>) s6
                in Some (current, s7)
              })
      | None \<Rightarrow> Some (Fiber_new n (Some p) s))"

text \<open>
  In \<open>root.counter -= cancelFibers(root, current.children)\<close> the counter is read
  before the call.
\<close>

definition makeRootFiber :: "nid \<Rightarrow> store \<Rightarrow> (fid \<times> store) option" where
  "makeRootFiber n s =
     (case node_fiber (nod s n) of
        Some current \<Rightarrow>
          (let r = root (fib s current);
               old = counter (fib s r)
           in do {
                (cancelled, s1) \<leftarrow> cancelFibers r (children (fib s current)) s;
                let s2 = upd_fiber r (\<lambda>f. f\<lparr>counter := old - cancelled\<rparr>) s1;
                    s3 = upd_fiber current (\<lambda>f. f\<lparr>children := []\<rparr>) s2;
                    s4 = upd_fiber r (\<lambda>f. f\<lparr>counter := counter f + 1\<rparr>) s3;
                    s5 = upd_fiber current (\<lambda>f. f\<lparr>bdom := None\<rparr>) s4;
                    s6 = (if current \<in> fibersInError s5
                          then upd_fiber current (\<lambda>f. f\<lparr>appliedToDom := False\<rparr>)
                                 (s5\<lparr>fibersInError := fibersInError s5 - {current} - {r}\<rparr>)
                          else s5)
                in Some (current, s6)
              })
      | None \<Rightarrow>
          (let (fiber, s1) = RootFiber_new n None s;
               s2 = (if node_willPatch (nod s1 n) \<noteq> []
                     then upd_fiber fiber (\<lambda>f. f\<lparr>willPatch := willPatch f @ [fiber]\<rparr>) s1 else s1);
               s3 = (if node_patched (nod s2 n) \<noteq> []
                     then upd_fiber fiber (\<lambda>f. f\<lparr>patched := patched f @ [fiber]\<rparr>) s2 else s2)
           in Some (fiber, s3)))"

section \<open>The commit protocol\<close>
















section \<open>Subtrees of the store\<close>

text \<open>
  The fibers below a list of fibers, as a finite forest: \<open>unfolds s fs ts\<close> holds when
  following \<open>children\<close> from the fibers \<open>fs\<close> in the store \<open>s\<close> ends, and
  \<open>ts\<close> is the forest met on the way. \<open>visited ts\<close> lists its fibers in the order
  \<open>cancelFibers\<close> visits them, and \<open>unset s f\<close> says that the fiber \<open>f\<close> has no
  output yet.
\<close>

datatype ftree = FNode fid "ftree list"

inductive unfolds :: "store \<Rightarrow> fid list \<Rightarrow> ftree list \<Rightarrow> bool" where
  unfolds_Nil: "unfolds s [] []"
| unfolds_Cons: "unfolds s (children (fib s f)) cs \<Longrightarrow> unfolds s fs ts \<Longrightarrow> unfolds s (f # fs) (FNode f cs # ts)"

fun ids :: "ftree \<Rightarrow> fid list" where
  "ids (FNode f cs) = f # concat (map ids cs)"

definition visited :: "ftree list \<Rightarrow> fid list" where
  "visited ts = concat (map ids ts)"

definition unset :: "store \<Rightarrow> fid \<Rightarrow> bool" where
  "unset s f = (bdom (fib s f) = None)"

text \<open>
  The store after the fibers \<open>V\<close> have been cancelled under the root \<open>r\<close>: each has
  \<open>r\<close> as its root, and the node of each has lost its fiber.
\<close>

definition cancelled :: "fid \<Rightarrow> fid set \<Rightarrow> store \<Rightarrow> store" where
  "cancelled r V s =
     s\<lparr>fib := (\<lambda>f. if f \<in> V then (fib s f)\<lparr>root := r\<rparr> else fib s f),
       nod := (\<lambda>n. if n \<in> (\<lambda>f. node (fib s f)) ` V then (nod s n)\<lparr>node_fiber := None\<rparr> else nod s n)\<rparr>"





section \<open>What a commit is expected to call\<close>














section \<open>Example stores\<close>

text \<open>
  \<open>exA\<close>: the root fiber 2 of node 2 has the children 3 and 4, fiber 3 has the
  child 5; fiber 4 is rendered, the others are pending, so the counter of fiber 2 is 3.
  Every other address holds a pending root fiber of its own (fiber 0 is the one used),
  and every node has the fiber of its number attached.
\<close>

definition fiber0 :: Fiber where
  "fiber0 = \<lparr>node = 0, bdom = None, root = 0, parent = None, children = [],
             appliedToDom = False, cls = RootFiber_class, counter = 1, willPatch = [], patched = [],
             mounted = [], locked = False, target = 0, position = last_child\<rparr>"

definition node0 :: ComponentNode where
  "node0 = \<lparr>node_fiber = None, node_bdom = None, node_component = 0, node_children = [],
            node_willPatch = [], node_patched = [], node_mounted = [], node_status = NEW\<rparr>"

definition exA :: store where
  "exA = \<lparr>fib = (\<lambda>i. fiber0\<lparr>node := i, root := i\<rparr>)
             (2 := fiber0\<lparr>node := 2, root := 2, children := [3, 4], counter := 3\<rparr>,
              3 := fiber0\<lparr>node := 3, root := 2, parent := Some 2, children := [5], cls := Fiber_class\<rparr>,
              4 := fiber0\<lparr>node := 4, root := 2, parent := Some 2, bdom := Some 7, cls := Fiber_class\<rparr>,
              5 := fiber0\<lparr>node := 5, root := 2, parent := Some 3, cls := Fiber_class\<rparr>),
          nod = (\<lambda>i. node0\<lparr>node_fiber := Some i\<rparr>),
          fibersInError = {}, childNodes = (\<lambda>_. []), fresh = 6\<rparr>"

text \<open>
  \<open>exB\<close>: no node has a fiber and nothing is allocated yet.
\<close>

definition exB :: store where
  "exB = \<lparr>fib = (\<lambda>i. fiber0), nod = (\<lambda>i. node0), fibersInError = {}, childNodes = (\<lambda>_. []), fresh = 0\<rparr>"








section \<open>Cancellation returns the number of pending fibers\<close>

lemma cancelFibers_Nil: "cancelFibers r [] s = Some (0, s)"
  by (subst cancelFibers.simps) simp

lemma cancelFibers_Cons:
  "cancelFibers r (fiber # rest) s =
     (let s1 = upd_node (node (fib s fiber)) (\<lambda>n. n\<lparr>node_fiber := None\<rparr>) s;
          s2 = upd_fiber fiber (\<lambda>f. f\<lparr>root := r\<rparr>) s1;
          result = (if bdom (fib s2 fiber) = None then 1 else 0)
      in do {
           (r1, s3) \<leftarrow> cancelFibers r (children (fib s2 fiber)) s2;
           (r2, s4) \<leftarrow> cancelFibers r rest s3;
           Some (result + r1 + r2, s4)
         })"
  by (subst cancelFibers.simps) simp

lemma visited_simps: "visited [] = []" "visited (FNode f cs # ts) = f # visited cs @ visited ts"
  by (simp_all add: visited_def)

lemma cancelled_empty: "cancelled r {} s = s"
  by (simp add: cancelled_def)

lemma cancelled_step:
  "upd_fiber f (\<lambda>g. g\<lparr>root := r\<rparr>)
     (upd_node (node (fib s f)) (\<lambda>n. n\<lparr>node_fiber := None\<rparr>) (cancelled r V s))
   = cancelled r (insert f V) s"
proof (rule store.equality)
  show "fib (upd_fiber f (\<lambda>g. g\<lparr>root := r\<rparr>)
     (upd_node (node (fib s f)) (\<lambda>n. n\<lparr>node_fiber := None\<rparr>) (cancelled r V s))) = fib (cancelled r (insert f V) s)"
    by (simp add: cancelled_def upd_fiber_def upd_node_def fun_eq_iff)
  show "nod (upd_fiber f (\<lambda>g. g\<lparr>root := r\<rparr>)
     (upd_node (node (fib s f)) (\<lambda>n. n\<lparr>node_fiber := None\<rparr>) (cancelled r V s))) = nod (cancelled r (insert f V) s)"
    by (simp add: cancelled_def upd_fiber_def upd_node_def fun_eq_iff)
qed (simp_all add: cancelled_def upd_fiber_def upd_node_def)

lemma cancelled_fields:
  "bdom (fib (cancelled r V s) f) = bdom (fib s f)"
  "children (fib (cancelled r V s) f) = children (fib s f)"
  "node (fib (cancelled r V s) f) = node (fib s f)"
  by (simp_all add: cancelled_def)

lemma cancelFibers_unfolds:
  "unfolds s fs ts \<Longrightarrow>
   cancelFibers r fs (cancelled r V s) =
     Some (int (length (filter (unset s) (visited ts))), cancelled r (V \<union> set (visited ts)) s)"
proof (induction arbitrary: V rule: unfolds.induct)
  case (unfolds_Nil s)
  show ?case by (simp add: cancelFibers_Nil visited_simps)
next
  case (unfolds_Cons s f cs fs ts)
  have a: "insert f V \<union> set (visited cs) \<union> set (visited ts) = V \<union> set (visited (FNode f cs # ts))"
    by (auto simp: visited_simps)
  have c1: "cancelFibers r (children (fib s f)) (cancelled r (insert f V) s) =
      Some (int (length (filter (unset s) (visited cs))), cancelled r (insert f V \<union> set (visited cs)) s)"
    by (rule unfolds_Cons.IH(1))
  have c2: "cancelFibers r fs (cancelled r (insert f V \<union> set (visited cs)) s) =
      Some (int (length (filter (unset s) (visited ts))),
            cancelled r (insert f V \<union> set (visited cs) \<union> set (visited ts)) s)"
    by (rule unfolds_Cons.IH(2))
  show ?case
    apply (subst cancelFibers_Cons)
    apply (simp only: Let_def cancelled_fields)
    apply (simp only: cancelled_step cancelled_fields c1 bind.bind_lunit prod.case c2 a)
    apply (simp add: visited_simps unset_def)
    done
qed


lemma cancelFibers_forest:
  assumes "unfolds s fs ts"
  shows "cancelFibers r fs s = Some (int (length (filter (unset s) (visited ts))), cancelled r (set (visited ts)) s)"
  using cancelFibers_unfolds[OF assms, of r "{}"] by (simp add: cancelled_empty)

lemma filter_unset_count:
  "int (length (filter (unset s) xs)) = int (length xs) - int (length (filter (\<lambda>f. bdom (fib s f) \<noteq> None) xs))"
  by (induction xs) (auto simp: unset_def)

text \<open>
  C2: when the subtrees of \<open>fibers\<close> are the forest \<open>ts\<close>, with \<open>K\<close> fibers of
  which \<open>M\<close> have their output set, \<open>cancelFibers(newRoot, fibers)\<close> returns
  \<open>K - M\<close>, and afterwards every fiber of the forest has \<open>newRoot\<close> as its root
  and its node has no fiber attached.
\<close>

theorem cancelFibers_tally:
  assumes "unfolds s fibers ts"
  shows "\<exists>s'. cancelFibers newRoot fibers s =
            Some (int (length (visited ts)) - int (length (filter (\<lambda>f. bdom (fib s f) \<noteq> None) (visited ts))), s')
          \<and> (\<forall>f \<in> set (visited ts). root (fib s' f) = newRoot \<and> node_fiber (nod s' (node (fib s' f))) = None)"
proof -
  let ?s' = "cancelled newRoot (set (visited ts)) s"
  have "cancelFibers newRoot fibers s =
            Some (int (length (visited ts)) - int (length (filter (\<lambda>f. bdom (fib s f) \<noteq> None) (visited ts))), ?s')"
    using cancelFibers_forest[OF assms] by (simp add: filter_unset_count)
  moreover have "\<forall>f \<in> set (visited ts). root (fib ?s' f) = newRoot \<and> node_fiber (nod ?s' (node (fib ?s' f))) = None"
    by (simp add: cancelled_def)
  ultimately show ?thesis by blast
qed

lemma exA_fib:
  "fib exA 0 = fiber0\<lparr>node := 0, root := 0\<rparr>"
  "fib exA 2 = fiber0\<lparr>node := 2, root := 2, children := [3, 4], counter := 3\<rparr>"
  "fib exA 3 = fiber0\<lparr>node := 3, root := 2, parent := Some 2, children := [5], cls := Fiber_class\<rparr>"
  "fib exA 4 = fiber0\<lparr>node := 4, root := 2, parent := Some 2, bdom := Some 7, cls := Fiber_class\<rparr>"
  "fib exA 5 = fiber0\<lparr>node := 5, root := 2, parent := Some 3, cls := Fiber_class\<rparr>"
  by (simp_all add: exA_def)

lemma exA_nod: "nod exA i = node0\<lparr>node_fiber := Some i\<rparr>"
  by (simp add: exA_def)

lemma exA_unfolds: "unfolds exA [3, 4] [FNode 3 [FNode 5 []], FNode 4 []]"
  by (auto intro!: unfolds.intros simp: exA_fib fiber0_def)

theorem cancelFibers_tally_witness:
  "unfolds exA [3, 4] [FNode 3 [FNode 5 []], FNode 4 []] \<and>
   map_option fst (cancelFibers 0 [3, 4] exA) = Some 2"
proof -
  obtain s' where "cancelFibers 0 [3, 4] exA =
      Some (int (length (visited [FNode 3 [FNode 5 []], FNode 4 []])) -
            int (length (filter (\<lambda>f. bdom (fib exA f) \<noteq> None) (visited [FNode 3 [FNode 5 []], FNode 4 []]))), s')"
    using cancelFibers_tally[OF exA_unfolds, of 0] by blast
  then show ?thesis
    using exA_unfolds by (simp add: visited_simps exA_fib fiber0_def)
qed

section \<open>Recycling the fiber of a node\<close>

lemma cancelled_counter: "counter (fib (cancelled r V s) f) = counter (fib s f)"
  by (simp add: cancelled_def)

lemma cancelled_root: "root (fib (cancelled r V s) f) = (if f \<in> V then r else root (fib s f))"
  by (simp add: cancelled_def)

lemma cancelled_node_fiber:
  "node_fiber (nod (cancelled r V s) n) = (if n \<in> (\<lambda>f. node (fib s f)) ` V then None else node_fiber (nod s n))"
  by (simp add: cancelled_def)

lemma nod_upd_fiber: "nod (upd_fiber f g s) = nod s"
  by (simp add: upd_fiber_def)

lemma fib_upd_node: "fib (upd_node n g s) = fib s"
  by (simp add: upd_node_def)

lemma nod_upd_node: "nod (upd_node n g s) = (nod s)(n := g (nod s n))"
  by (simp add: upd_node_def)

lemma fib_cleanPatchableFiber:
  "fib (cleanPatchableFiber c r s) =
     (fib s)(r := (fib s r)\<lparr>willPatch := remove1 c (willPatch (fib s r)), patched := remove1 c (patched (fib s r))\<rparr>)"
  by (simp add: cleanPatchableFiber_def Let_def upd_fiber_def fun_eq_iff)

lemma nod_cleanPatchableFiber: "nod (cleanPatchableFiber c r s) = nod s"
  by (simp add: cleanPatchableFiber_def Let_def upd_fiber_def)


lemma fib_upd_fiber_app: "fib (upd_fiber f g s) x = (if x = f then g (fib s f) else fib s x)"
  by (simp add: upd_fiber_def)

lemma makeChildFiber_recycle:
  assumes "node_fiber (nod s n) = Some current"
    and "unfolds s (children (fib s current)) ts"
  shows "makeChildFiber n p s =
     (let r = root (fib s p);
          isSameRoot = (root (fib s current) = r);
          s1 = cancelled r (set (visited ts)) s;
          s2 = upd_fiber current (\<lambda>f. f\<lparr>children := []\<rparr>) s1;
                    s3 = upd_fiber current (\<lambda>f. f\<lparr>parent := Some p\<rparr>) s2;
                    s4 = (if \<not> isSameRoot \<or> bdom (fib s3 current) \<noteq> None
                          then upd_fiber r (\<lambda>f. f\<lparr>counter := counter f + 1\<rparr>) s3 else s3);
                    s5 = (if isSameRoot then cleanPatchableFiber current r s4 else s4);
                    s6 = upd_fiber current (\<lambda>f. f\<lparr>bdom := None\<rparr>) s5;
                    s7 = upd_fiber current (\<lambda>f. f\<lparr>root := r\<rparr>) s6
                in Some (current, s7))"
  unfolding makeChildFiber_def Let_def
  by (simp only: assms(1) option.case cancelFibers_forest[OF assms(2)] bind.bind_lunit prod.case)

lemma exA_unfolds2: "unfolds exA (children (fib exA 2)) [FNode 3 [FNode 5 []], FNode 4 []]"
  using exA_unfolds by (simp add: exA_fib)

lemma exA_node2: "node_fiber (nod exA 2) = Some 2"
  by (simp add: exA_nod)

lemma makeChildFiber_recycle_fields:
  assumes "node_fiber (nod s n) = Some current"
    and "unfolds s (children (fib s current)) ts"
  shows "\<exists>s'. makeChildFiber n p s = Some (current, s')
           \<and> nod s' = nod (cancelled (root (fib s p)) (set (visited ts)) s)
           \<and> (\<forall>f. node (fib s' f) = node (fib s f))
           \<and> (\<forall>f. root (fib s' f) =
                  (if f = current then root (fib s p)
                   else root (fib (cancelled (root (fib s p)) (set (visited ts)) s) f)))
           \<and> children (fib s' current) = []
           \<and> parent (fib s' current) = Some p"
  unfolding makeChildFiber_recycle[OF assms] Let_def
  by (simp add: fib_upd_fiber_app nod_upd_fiber fib_cleanPatchableFiber nod_cleanPatchableFiber cancelled_fields)

text \<open>
  C4: when the node has a fiber attached (and cancelling its children ends),
  \<open>makeChildFiber(node, parent)\<close> returns that fiber, and the counter of
  \<open>parent.root\<close> goes up by one exactly when the fiber's previous root is another
  one or its output is set; otherwise the counter stays. Afterwards the root of the
  fiber is \<open>parent.root\<close>.
\<close>

theorem makeChildFiber_counter:
  assumes "node_fiber (nod s n) = Some current"
    and "unfolds s (children (fib s current)) ts"
  shows "\<exists>s'. makeChildFiber n p s = Some (current, s')
           \<and> counter (fib s' (root (fib s p))) =
               counter (fib s (root (fib s p))) +
                 (if root (fib s current) \<noteq> root (fib s p) \<or> bdom (fib s current) \<noteq> None then 1 else 0)
           \<and> root (fib s' current) = root (fib s p)"
  unfolding makeChildFiber_recycle[OF assms] Let_def
  by (simp add: fib_upd_fiber_app fib_cleanPatchableFiber cancelled_counter cancelled_fields)


theorem makeChildFiber_counter_witness:
  "node_fiber (nod exA 2) = Some 2 \<and>
   map_option (\<lambda>(f, s'). (f, counter (fib s' 0), root (fib s' 2))) (makeChildFiber 2 0 exA) = Some (2, 2, 0)"
proof -
  obtain s' where "makeChildFiber 2 0 exA = Some (2, s')"
    and "counter (fib s' (root (fib exA 0))) =
           counter (fib exA (root (fib exA 0))) +
             (if root (fib exA 2) \<noteq> root (fib exA 0) \<or> bdom (fib exA 2) \<noteq> None then 1 else 0)"
    and "root (fib s' 2) = root (fib exA 0)"
    using makeChildFiber_counter[OF exA_node2 exA_unfolds2, of 0] by blast
  then show ?thesis
    by (simp add: exA_fib exA_node2 fiber0_def)
qed

text \<open>
  C3, as the claim states it, fails: in \<open>exA\<close> the fiber of node 2 has the previous
  root 2, whose counter is 3, and cancelling its children returns 2. After
  \<open>makeChildFiber\<close> under the parent fiber 0 the cancelled child 3 has the root 0,
  the root of the parent and not the previous root, and the counter of the previous
  root is still 3.
\<close>

theorem makeChildFiber_previous_root_counterexample:
  "root (fib exA 2) = 2 \<and> counter (fib exA 2) = 3 \<and>
   map_option fst (cancelFibers 0 (children (fib exA 2)) exA) = Some 2 \<and>
   map_option (\<lambda>(f, s'). (f, root (fib s' 3), counter (fib s' 2))) (makeChildFiber 2 0 exA) = Some (2, 0, 3)"
  unfolding makeChildFiber_recycle[OF exA_node2 exA_unfolds2] cancelFibers_forest[OF exA_unfolds2] Let_def
  by (simp add: fib_upd_fiber_app fib_cleanPatchableFiber cancelled_counter cancelled_root cancelled_fields
      visited_simps exA_fib fiber0_def unset_def)


text \<open>
  C3, amended: \<open>makeChildFiber(node, parent)\<close> on a node with a fiber attached
  cancels the children of that fiber under \<open>parent.root\<close>: every fiber below it gets
  \<open>parent.root\<close> as its root and its node loses its fiber. The fiber itself loses its
  children, and gets \<open>parent\<close> as its parent and \<open>parent.root\<close> as its root.
\<close>

theorem makeChildFiber_reparents:
  assumes "node_fiber (nod s n) = Some current"
    and "unfolds s (children (fib s current)) ts"
  shows "\<exists>s'. makeChildFiber n p s = Some (current, s')
           \<and> (\<forall>f \<in> set (visited ts).
                 root (fib s' f) = root (fib s p) \<and> node_fiber (nod s' (node (fib s' f))) = None)
           \<and> children (fib s' current) = []
           \<and> parent (fib s' current) = Some p
           \<and> root (fib s' current) = root (fib s p)"
proof -
  obtain s' where res: "makeChildFiber n p s = Some (current, s')"
    and nod: "nod s' = nod (cancelled (root (fib s p)) (set (visited ts)) s)"
    and node: "\<And>f. node (fib s' f) = node (fib s f)"
    and root: "\<And>f. root (fib s' f) =
                  (if f = current then root (fib s p)
                   else root (fib (cancelled (root (fib s p)) (set (visited ts)) s) f))"
    and rest: "children (fib s' current) = []" "parent (fib s' current) = Some p"
    using makeChildFiber_recycle_fields[OF assms, of p] by blast
  have "root (fib s' f) = root (fib s p) \<and> node_fiber (nod s' (node (fib s' f))) = None"
    if "f \<in> set (visited ts)" for f
    using that by (simp add: nod node root cancelled_root cancelled_node_fiber)
  then show ?thesis
    using res rest root by simp
qed


theorem makeChildFiber_reparents_witness:
  "unfolds exA (children (fib exA 2)) [FNode 3 [FNode 5 []], FNode 4 []] \<and>
   map_option (\<lambda>(f, s'). (f, root (fib s' 2), root (fib s' 3), root (fib s' 4), root (fib s' 5), parent (fib s' 2)))
     (makeChildFiber 2 0 exA) = Some (2, 0, 0, 0, 0, Some 0)"
proof -
  obtain s' where res: "makeChildFiber 2 0 exA = Some (2, s')"
    and all: "\<forall>f \<in> set (visited [FNode 3 [FNode 5 []], FNode 4 []]).
           root (fib s' f) = root (fib exA 0) \<and> node_fiber (nod s' (node (fib s' f))) = None"
    and par: "parent (fib s' 2) = Some 0"
    and root: "root (fib s' 2) = root (fib exA 0)"
    using makeChildFiber_reparents[OF exA_node2 exA_unfolds2, of 0] by blast
  have "root (fib s' 3) = root (fib exA 0)" "root (fib s' 4) = root (fib exA 0)" "root (fib s' 5) = root (fib exA 0)"
    using all by (simp_all add: visited_simps)
  then show ?thesis
    using res par root exA_unfolds2 by (simp add: exA_fib fiber0_def)
qed

lemma makeRootFiber_new:
  assumes "node_fiber (nod s n) = None"
  shows "\<exists>s1. makeRootFiber n s = Some (fresh s, s1) \<and> children (fib s1 (fresh s)) = []
           \<and> root (fib s1 (fresh s)) = fresh s \<and> counter (fib s1 (fresh s)) = 1 \<and> bdom (fib s1 (fresh s)) = None"
  using assms
  by (simp add: makeRootFiber_def RootFiber_new_def RootFiber_constructor_def Fiber_constructor_def alloc_def
      Let_def fib_upd_fiber_app nod_upd_fiber)

lemma makeRootFiber_children:
  assumes "makeRootFiber n s = Some (f, s1)"
  shows "children (fib s1 f) = []"
proof (cases "node_fiber (nod s n)")
  case None
  then show ?thesis using makeRootFiber_new[OF None] assms by auto
next
  case (Some current)
  then show ?thesis using assms
    by (auto simp: makeRootFiber_def Let_def fib_upd_fiber_app split: bind_splits)
qed

lemma makeRootFiber_again:
  assumes "makeRootFiber n s = Some (f, s1)"
  shows "\<exists>s2. makeRootFiber n (upd_node n (\<lambda>m. m\<lparr>node_fiber := Some f\<rparr>) s1) = Some (f, s2)
           \<and> counter (fib s2 (root (fib s1 f))) = counter (fib s1 (root (fib s1 f))) + 1"
proof -
  let ?s = "upd_node n (\<lambda>m. m\<lparr>node_fiber := Some f\<rparr>) s1"
  have c: "children (fib ?s f) = []"
    using makeRootFiber_children[OF assms] by (simp add: fib_upd_node)
  have n: "node_fiber (nod ?s n) = Some f"
    by (simp add: nod_upd_node)
  show ?thesis
    unfolding makeRootFiber_def Let_def
    by (simp add: n makeRootFiber_children[OF assms] cancelFibers_Nil fib_upd_fiber_app fib_upd_node)
qed


text \<open>
  C9, as the claim states it, fails: in \<open>exB\<close> the first \<open>makeRootFiber\<close> on
  node 0 creates fiber 0 with the counter 1; with that fiber attached, the second call
  returns the same fiber and the counter is 2.
\<close>

theorem makeRootFiber_counter_counterexample:
  "\<exists>s1 s2. makeRootFiber 0 exB = Some (0, s1)
      \<and> makeRootFiber 0 (upd_node 0 (\<lambda>m. m\<lparr>node_fiber := Some 0\<rparr>) s1) = Some (0, s2)
      \<and> counter (fib s1 0) = 1 \<and> counter (fib s2 0) = 2"
proof -
  have "node_fiber (nod exB 0) = None" "fresh exB = 0"
    by (simp_all add: exB_def node0_def)
  then obtain s1 where a: "makeRootFiber 0 exB = Some (0, s1)" "root (fib s1 0) = 0" "counter (fib s1 0) = 1"
    using makeRootFiber_new[of exB 0] by auto
  obtain s2 where "makeRootFiber 0 (upd_node 0 (\<lambda>m. m\<lparr>node_fiber := Some 0\<rparr>) s1) = Some (0, s2)"
    "counter (fib s2 (root (fib s1 0))) = counter (fib s1 (root (fib s1 0))) + 1"
    using makeRootFiber_again[OF a(1)] by blast
  then show ?thesis using a by auto
qed

text \<open>
  C9, amended: when \<open>makeRootFiber(node)\<close> has returned a fiber and that fiber is
  attached to the node, a second call returns the same fiber, and it raises the counter
  of the fiber's root by one again.
\<close>

theorem makeRootFiber_twice:
  assumes "makeRootFiber n s = Some (f, s1)"
  shows "\<exists>s2. makeRootFiber n (upd_node n (\<lambda>m. m\<lparr>node_fiber := Some f\<rparr>) s1) = Some (f, s2)
           \<and> counter (fib s2 (root (fib s1 f))) = counter (fib s1 (root (fib s1 f))) + 1"
  using assms by (rule makeRootFiber_again)

theorem makeRootFiber_twice_witness:
  "\<exists>s1 s2. makeRootFiber 0 exB = Some (0, s1)
      \<and> makeRootFiber 0 (upd_node 0 (\<lambda>m. m\<lparr>node_fiber := Some 0\<rparr>) s1) = Some (0, s2)
      \<and> counter (fib s2 (root (fib s1 0))) = counter (fib s1 (root (fib s1 0))) + 1"
proof -
  have "node_fiber (nod exB 0) = None" "fresh exB = 0"
    by (simp_all add: exB_def node0_def)
  then obtain s1 where a: "makeRootFiber 0 exB = Some (0, s1)"
    using makeRootFiber_new[of exB 0] by auto
  then show ?thesis
    using makeRootFiber_twice[OF a] by blast
qed

section \<open>The order of the hooks in a commit\<close>
























section \<open>Exceptions during a commit\<close>































section \<open>The guards of the hooks\<close>







































section \<open>The counter and the pending fibers\<close>






























end
